theory Spec2Isabelle
  imports Main "HOL-Library.Sublist"
begin

section \<open>Python values\<close>

text \<open>
  Token headers, token claims, the OpenID configuration and the JWKS document are all
  decoded JSON. A JSON object is an association list (a key is bound to its first
  entry; Python dictionaries have one entry per key). Python's \<open>None\<close> and JSON's
  \<open>null\<close> are the same value \<open>JNull\<close>, so \<open>d.get(k)\<close> of a missing key is \<open>JNull\<close>.
  JSON numbers are integers here; strings are lists of 8-bit characters, read as code
  points (an HTTP header value is decoded as Latin-1, one character per byte).
\<close>

datatype json =
    JNull
  | JBool bool
  | JInt int
  | JStr string
  | JList "json list"
  | JObj "(string \<times> json) list"

type_synonym pdict = "(string \<times> json) list"

text \<open>Truth value testing, as in \<open>if value:\<close> and \<open>not kid\<close>.\<close>

fun py_truthy :: "json \<Rightarrow> bool" where
  "py_truthy JNull = False"
| "py_truthy (JBool b) = b"
| "py_truthy (JInt n) = (n \<noteq> 0)"
| "py_truthy (JStr s) = (s \<noteq> [])"
| "py_truthy (JList xs) = (xs \<noteq> [])"
| "py_truthy (JObj d) = (d \<noteq> [])"

text \<open>
  The operator \<open>==\<close>: booleans are the integers 0 and 1, lists are equal elementwise,
  dictionaries when they have the same keys with equal values.
\<close>

fun py_eq :: "json \<Rightarrow> json \<Rightarrow> bool"
  and py_eq_list :: "json list \<Rightarrow> json list \<Rightarrow> bool" where
  "py_eq JNull JNull = True"
| "py_eq (JBool a) (JBool b) = (a = b)"
| "py_eq (JBool a) (JInt n) = (of_bool a = n)"
| "py_eq (JInt n) (JBool a) = (n = of_bool a)"
| "py_eq (JInt m) (JInt n) = (m = n)"
| "py_eq (JStr s) (JStr t) = (s = t)"
| "py_eq (JList xs) (JList ys) = py_eq_list xs ys"
| "py_eq (JObj d) (JObj e) =
     (list_all (\<lambda>k. k \<in> set (map fst e)) (map fst d) \<and>
      list_all (\<lambda>k. k \<in> set (map fst d)) (map fst e) \<and>
      list_all (\<lambda>(k, v). list_all (\<lambda>(k', w). k = k' \<longrightarrow> py_eq v w) e) d)"
| "py_eq _ _ = False"
| "py_eq_list [] [] = True"
| "py_eq_list (x # xs) (y # ys) = (py_eq x y \<and> py_eq_list xs ys)"
| "py_eq_list _ _ = False"

section \<open>Exceptions\<close>

text \<open>
  Every exception the module raises or lets through is a value. \<open>HTTPException\<close>
  carries the status code and the detail; \<open>JWTError\<close> is python-jose's error with its
  message; \<open>HTTPStatusError\<close> and \<open>TransportError\<close> are what the HTTP client raises.
\<close>

datatype exn =
    HTTPException nat string
  | RuntimeError string
  | JWTError string
  | HTTPStatusError nat
  | TransportError string
  | JSONDecodeError string
  | AttributeError string
  | TypeError string
  | IndexError string

text \<open>\<open>str(e)\<close> of an exception, and of \<open>None\<close>.\<close>

fun exn_message :: "exn \<Rightarrow> string" where
  "exn_message (HTTPException c d) = d"
| "exn_message (RuntimeError m) = m"
| "exn_message (JWTError m) = m"
| "exn_message (HTTPStatusError c) = ''HTTP status error''"
| "exn_message (TransportError m) = m"
| "exn_message (JSONDecodeError m) = m"
| "exn_message (AttributeError m) = m"
| "exn_message (TypeError m) = m"
| "exn_message (IndexError m) = m"

definition str_of_error :: "exn option \<Rightarrow> string" where
  "str_of_error last_error =
     (case last_error of None \<Rightarrow> ''None'' | Some e \<Rightarrow> exn_message e)"

text \<open>The status code FastAPI answers with: the exception's own, 500 for any other.\<close>

fun response_status :: "exn \<Rightarrow> nat" where
  "response_status (HTTPException c d) = c"
| "response_status e = 500"

section \<open>Dictionary and sequence operations\<close>

definition dict_get :: "pdict \<Rightarrow> string \<Rightarrow> json" where
  "dict_get d k = (case map_of d k of None \<Rightarrow> JNull | Some v \<Rightarrow> v)"

text \<open>
  \<open>x.get(k)\<close> and \<open>x.get(k, default)\<close> where \<open>x\<close> is whatever the provider sent: only a
  dictionary has the method.
\<close>

definition py_get_default :: "json \<Rightarrow> string \<Rightarrow> json \<Rightarrow> exn + json" where
  "py_get_default x k dflt =
     (case x of
        JObj d \<Rightarrow> Inr (case map_of d k of None \<Rightarrow> dflt | Some v \<Rightarrow> v)
      | _ \<Rightarrow> Inl (AttributeError ''get''))"

definition py_get :: "json \<Rightarrow> string \<Rightarrow> exn + json" where
  "py_get x k = py_get_default x k JNull"

text \<open>The elements a \<open>for\<close> loop runs over.\<close>

definition py_iter :: "json \<Rightarrow> exn + json list" where
  "py_iter x =
     (case x of
        JList xs \<Rightarrow> Inr xs
      | JStr s \<Rightarrow> Inr (map (\<lambda>c. JStr [c]) s)
      | JObj d \<Rightarrow> Inr (map (\<lambda>kv. JStr (fst kv)) d)
      | _ \<Rightarrow> Inl (TypeError ''object is not iterable''))"

definition py_index :: "'a list \<Rightarrow> nat \<Rightarrow> exn + 'a" where
  "py_index xs i =
     (if i < length xs then Inr (xs ! i) else Inl (IndexError ''list index out of range''))"

section \<open>String operations\<close>

text \<open>\<open>str.lower\<close>, \<open>str.split(" ", 1)\<close> and \<open>str.strip\<close> on Latin-1 text.\<close>

definition lower_char :: "char \<Rightarrow> char" where
  "lower_char c =
     (let n = (of_char c :: nat) in
      if (65 \<le> n \<and> n \<le> 90) \<or> (192 \<le> n \<and> n \<le> 222 \<and> n \<noteq> 215)
      then char_of (n + 32) else c)"

definition py_lower :: "string \<Rightarrow> string" where
  "py_lower s = map lower_char s"

definition py_isspace :: "char \<Rightarrow> bool" where
  "py_isspace c =
     (let n = (of_char c :: nat) in
      (9 \<le> n \<and> n \<le> 13) \<or> (28 \<le> n \<and> n \<le> 32) \<or> n = 133 \<or> n = 160)"

definition py_strip :: "string \<Rightarrow> string" where
  "py_strip s = rev (dropWhile py_isspace (rev (dropWhile py_isspace s)))"

definition py_split1 :: "string \<Rightarrow> string list" where
  "py_split1 s =
     (case dropWhile (\<lambda>c. c \<noteq> CHR '' '') s of
        [] \<Rightarrow> [s]
      | sp # rest \<Rightarrow> [takeWhile (\<lambda>c. c \<noteq> CHR '' '') s, rest])"

section \<open>Settings, environment and process state\<close>

record AzureADSettings =
  tenant_id :: string
  client_id :: string
  issuer :: string
  openid_config_url :: string
  jwks_uri :: "string option"
  audience :: string

record http_response =
  status_code :: nat
  json_body :: "exn + json"

text \<open>
  What lies outside the module is a parameter: the identity provider's answer to the
  \<open>n\<close>-th outbound GET, the wall clock (\<open>now_at n\<close> is the \<open>n\<close>-th sample read in the
  process), and python-jose's \<open>jwt.get_unverified_header\<close> and \<open>jwt.decode\<close>. The module
  passes no time to \<open>jwt.decode\<close> and imports no clock: the library reads the clock
  itself, during the call and as often as its checks need (not at all when the signature
  fails, once for each of \<open>nbf\<close> and \<open>exp\<close> the token carries). So the last argument of
  \<open>decode\<close> is the clock as the call finds it, sample 0 being the first the call reads,
  and \<open>decode\<close> answers with its outcome and the number of samples it read. \<open>py_repr\<close> is
  \<open>str\<close> on a value that is not a string.
\<close>

record env =
  http_get :: "nat \<Rightarrow> string \<Rightarrow> exn + http_response"
  now_at :: "nat \<Rightarrow> int"
  get_unverified_header :: "string \<Rightarrow> exn + pdict"
  decode :: "string \<Rightarrow> json \<Rightarrow> string list \<Rightarrow> string \<Rightarrow> string \<Rightarrow> (nat \<Rightarrow> int)
               \<Rightarrow> (exn + pdict) \<times> nat"
  py_repr :: "json \<Rightarrow> string"

text \<open>
  The process state: the two \<open>lru_cache\<close> tables (keyed by the settings object), the
  URLs requested so far, the number of clock samples read so far, and the calls made to
  \<open>jwt.decode\<close> so far (audience, issuer, and the number of clock samples read before
  the call began). The tables hold
  128 entries before they evict; \<open>get_settings\<close> is memoised too, so a process has one
  settings object and the tables one entry, and eviction is left out.
\<close>

record world =
  openid_cache :: "(AzureADSettings \<times> json) list"
  jwks_cache :: "(AzureADSettings \<times> json) list"
  http_log :: "string list"
  clock :: nat
  decode_log :: "(string \<times> string \<times> nat) list"

section \<open>Key set retrieval\<close>

text \<open>\<open>resp.raise_for_status()\<close>: the client raises unless the status is 2xx.\<close>

definition raise_for_status :: "http_response \<Rightarrow> exn + unit" where
  "raise_for_status resp =
     (if 200 \<le> status_code resp \<and> status_code resp < 300 then Inr ()
      else Inl (HTTPStatusError (status_code resp)))"

text \<open>
  The block both fetchers share: \<open>resp = client.get(url)\<close>, \<open>resp.raise_for_status()\<close>,
  \<open>return resp.json()\<close>.
\<close>

definition client_get_json :: "env \<Rightarrow> string \<Rightarrow> world \<Rightarrow> (exn + json) \<times> world" where
  "client_get_json E url w =
     (let w' = w\<lparr>http_log := http_log w @ [url]\<rparr> in
      case http_get E (length (http_log w)) url of
        Inl e \<Rightarrow> (Inl e, w')
      | Inr resp \<Rightarrow>
          (case raise_for_status resp of
             Inl e \<Rightarrow> (Inl e, w')
           | Inr u \<Rightarrow> (json_body resp, w')))"

text \<open>
  \<open>get_openid_config\<close> under \<open>lru_cache\<close>: a cached result is returned as it is; a call
  that raises caches nothing.
\<close>

definition get_openid_config :: "env \<Rightarrow> AzureADSettings \<Rightarrow> world \<Rightarrow> (exn + json) \<times> world" where
  "get_openid_config E settings w =
     (case map_of (openid_cache w) settings of
        Some config \<Rightarrow> (Inr config, w)
      | None \<Rightarrow>
          (case client_get_json E (openid_config_url settings) w of
             (Inl e, w') \<Rightarrow> (Inl e, w')
           | (Inr config, w') \<Rightarrow>
               (Inr config, w'\<lparr>openid_cache := (settings, config) # openid_cache w'\<rparr>)))"

text \<open>The URL argument of \<open>client.get\<close>: the client refuses what is not a string.\<close>

definition url_arg :: "json \<Rightarrow> exn + string" where
  "url_arg x = (case x of JStr u \<Rightarrow> Inr u | _ \<Rightarrow> Inl (TypeError ''Invalid type for url''))"

text \<open>
  The body of \<open>get_jwks\<close>. \<open>settings.jwks_uri\<close> is an optional string, \<open>None\<close> when the
  variable is not set.
\<close>

definition opt_json :: "string option \<Rightarrow> json" where
  "opt_json x = (case x of None \<Rightarrow> JNull | Some u \<Rightarrow> JStr u)"

definition get_jwks_body :: "env \<Rightarrow> AzureADSettings \<Rightarrow> world \<Rightarrow> (exn + json) \<times> world" where
  "get_jwks_body E settings w =
     (case (if \<not> py_truthy (opt_json (jwks_uri settings))
            then
              (case get_openid_config E settings w of
                 (Inl e, w') \<Rightarrow> (Inl e, w')
               | (Inr config, w') \<Rightarrow>
                   (case py_get config ''jwks_uri'' of
                      Inl e \<Rightarrow> (Inl e, w')
                    | Inr ju \<Rightarrow>
                        if \<not> py_truthy ju
                        then (Inl (RuntimeError
                                (''No se pudo obtener jwks_uri desde la configuraci''
                                 @ [CHR 0xF3] @ ''n OpenID'')), w')
                        else (Inr ju, w')))
            else (Inr (opt_json (jwks_uri settings)), w)) of
        (Inl e, w') \<Rightarrow> (Inl e, w')
      | (Inr ju, w') \<Rightarrow>
          (case url_arg ju of
             Inl e \<Rightarrow> (Inl e, w')
           | Inr u \<Rightarrow> client_get_json E u w'))"

definition get_jwks :: "env \<Rightarrow> AzureADSettings \<Rightarrow> world \<Rightarrow> (exn + json) \<times> world" where
  "get_jwks E settings w =
     (case map_of (jwks_cache w) settings of
        Some jwks \<Rightarrow> (Inr jwks, w)
      | None \<Rightarrow>
          (case get_jwks_body E settings w of
             (Inl e, w') \<Rightarrow> (Inl e, w')
           | (Inr jwks, w') \<Rightarrow>
               (Inr jwks, w'\<lparr>jwks_cache := (settings, jwks) # jwks_cache w'\<rparr>)))"

section \<open>Signing key lookup\<close>

text \<open>The loop of \<open>_get_signing_key\<close> over the entries of the key set.\<close>

fun find_key :: "json list \<Rightarrow> json \<Rightarrow> exn + json option" where
  "find_key [] kid = Inr None"
| "find_key (key # keys) kid =
     (case py_get key ''kid'' of
        Inl e \<Rightarrow> Inl e
      | Inr k \<Rightarrow> if py_eq k kid then Inr (Some key) else find_key keys kid)"

definition get_signing_key :: "env \<Rightarrow> string \<Rightarrow> json \<Rightarrow> exn + json" where
  "get_signing_key E token jwks =
     (case get_unverified_header E token of
        Inl e \<Rightarrow> Inl e
      | Inr headers \<Rightarrow>
          (let kid = dict_get headers ''kid'' in
           if \<not> py_truthy kid
           then Inl (HTTPException 401
                  (''Token sin '' @ [CHR 0x27] @ ''kid'' @ [CHR 0x27] @ '' en el encabezado''))
           else
             (case py_get_default jwks ''keys'' (JList []) of
                Inl e \<Rightarrow> Inl e
              | Inr ks \<Rightarrow>
                  (case py_iter ks of
                     Inl e \<Rightarrow> Inl e
                   | Inr keys \<Rightarrow>
                       (case find_key keys kid of
                          Inl e \<Rightarrow> Inl e
                        | Inr (Some key) \<Rightarrow> Inr key
                        | Inr None \<Rightarrow>
                            Inl (HTTPException 401
                              (''No se encontr'' @ [CHR 0xF3]
                               @ '' clave de firma para el token'')))))))"

section \<open>Token validation\<close>

text \<open>
  One call of \<open>jwt.decode(token, signing_jwk, algorithms=["RS256"], audience=aud,
  issuer=iss)\<close>: the library reads the clock from where the process has left it, and
  the clock moves on by the samples the call read.
\<close>

definition jwt_decode ::
  "env \<Rightarrow> string \<Rightarrow> json \<Rightarrow> string list \<Rightarrow> string \<Rightarrow> string \<Rightarrow> world
     \<Rightarrow> (exn + pdict) \<times> world" where
  "jwt_decode E token key algorithms aud iss w =
     (case decode E token key algorithms aud iss (\<lambda>i. now_at E (clock w + i)) of
        (r, n) \<Rightarrow>
          (r, w\<lparr>clock := clock w + n, decode_log := decode_log w @ [(aud, iss, clock w)]\<rparr>))"

text \<open>
  The two nested \<open>for\<close> loops. A loop ends by returning the claims, by an exception
  that is not a \<open>JWTError\<close>, or by running out, with \<open>last_error\<close> as it then stands.
\<close>

datatype loop_result = Returned pdict | Raised exn | Completed "exn option"

fun try_issuers ::
  "env \<Rightarrow> string \<Rightarrow> json \<Rightarrow> string \<Rightarrow> string list \<Rightarrow> exn option \<Rightarrow> world
     \<Rightarrow> loop_result \<times> world" where
  "try_issuers E token key aud [] last_error w = (Completed last_error, w)"
| "try_issuers E token key aud (iss # isss) last_error w =
     (case jwt_decode E token key [''RS256''] aud iss w of
        (Inr claims, w') \<Rightarrow> (Returned claims, w')
      | (Inl (JWTError m), w') \<Rightarrow> try_issuers E token key aud isss (Some (JWTError m)) w'
      | (Inl e, w') \<Rightarrow> (Raised e, w'))"

fun try_audiences ::
  "env \<Rightarrow> string \<Rightarrow> json \<Rightarrow> string list \<Rightarrow> string list \<Rightarrow> exn option \<Rightarrow> world
     \<Rightarrow> loop_result \<times> world" where
  "try_audiences E token key [] isss last_error w = (Completed last_error, w)"
| "try_audiences E token key (aud # auds) isss last_error w =
     (case try_issuers E token key aud isss last_error w of
        (Completed last_error', w') \<Rightarrow> try_audiences E token key auds isss last_error' w'
      | (r, w') \<Rightarrow> (r, w'))"

text \<open>
  \<open>validate_jwt\<close>. The read of the unverified claims between the key lookup and the
  loops only writes log lines, inside a \<open>try\<close> that swallows every exception, and is
  left out, as is all logging.
\<close>

definition validate_jwt ::
  "env \<Rightarrow> string \<Rightarrow> AzureADSettings \<Rightarrow> world \<Rightarrow> (exn + pdict) \<times> world" where
  "validate_jwt E token settings w =
     (case get_jwks E settings w of
        (Inl e, w1) \<Rightarrow> (Inl e, w1)
      | (Inr jwks, w1) \<Rightarrow>
          (case get_signing_key E token jwks of
             Inl e \<Rightarrow> (Inl e, w1)
           | Inr signing_jwk \<Rightarrow>
               (let allowed_issuers =
                      [issuer settings,
                       ''https://sts.windows.net/'' @ tenant_id settings @ ''/''];
                    allowed_audiences = [audience settings, client_id settings]
                in case try_audiences E token signing_jwk allowed_audiences allowed_issuers
                          None w1 of
                     (Returned claims, w2) \<Rightarrow> (Inr claims, w2)
                   | (Raised e, w2) \<Rightarrow> (Inl e, w2)
                   | (Completed last_error, w2) \<Rightarrow>
                       (Inl (HTTPException 401
                          (''Token inv'' @ [CHR 0xE1] @ ''lido: ''
                           @ str_of_error last_error)), w2))))"

section \<open>Claims projection\<close>

text \<open>The loop of \<open>_extract_email_from_claims\<close> over the candidate claim names.\<close>

fun first_truthy :: "pdict \<Rightarrow> string list \<Rightarrow> json option" where
  "first_truthy claims [] = None"
| "first_truthy claims (key # keys) =
     (let v = dict_get claims key in
      if py_truthy v then Some v else first_truthy claims keys)"

definition extract_email_from_claims :: "pdict \<Rightarrow> exn + json" where
  "extract_email_from_claims claims =
     (case first_truthy claims [''preferred_username'', ''upn'', ''email''] of
        Some v \<Rightarrow> Inr v
      | None \<Rightarrow>
          (let emails = dict_get claims ''emails'' in
           case emails of
             JList xs \<Rightarrow> if py_truthy emails then py_index xs 0 else Inr JNull
           | _ \<Rightarrow> Inr JNull))"

definition py_str :: "env \<Rightarrow> json \<Rightarrow> string" where
  "py_str E x = (case x of JStr s \<Rightarrow> s | _ \<Rightarrow> py_repr E x)"

definition extract_groups_from_claims :: "env \<Rightarrow> pdict \<Rightarrow> string list" where
  "extract_groups_from_claims E claims =
     (let g = dict_get claims ''groups'';
          groups = (if py_truthy g then g else JList [])
      in case groups of JList xs \<Rightarrow> map (py_str E) xs | _ \<Rightarrow> [])"

text \<open>
  The dictionary \<open>build_user_info_from_claims\<close> returns, with its keys \<open>id\<close>, \<open>name\<close>,
  \<open>email\<close>, \<open>groups\<close> and \<open>raw_claims\<close>.
\<close>

record user_info =
  info_id :: json
  info_name :: json
  info_email :: json
  info_groups :: "string list"
  raw_claims :: pdict

definition build_user_info_from_claims :: "env \<Rightarrow> pdict \<Rightarrow> exn + user_info" where
  "build_user_info_from_claims E claims =
     (case extract_email_from_claims claims of
        Inl e \<Rightarrow> Inl e
      | Inr email \<Rightarrow>
          (let groups = extract_groups_from_claims E claims in
           Inr \<lparr>info_id = (let oid = dict_get claims ''oid'' in
                            if py_truthy oid then oid else dict_get claims ''sub''),
                info_name = dict_get claims ''name'',
                info_email = email,
                info_groups = groups,
                raw_claims = claims\<rparr>))"

section \<open>The request boundary\<close>

text \<open>
  A request is its header list. The framework finds a header by its name, whatever the
  letter case, and gives the first one.
\<close>

record request =
  headers :: "(string \<times> string) list"

definition headers_get :: "(string \<times> string) list \<Rightarrow> string \<Rightarrow> string option" where
  "headers_get hs key = map_of (map (\<lambda>kv. (py_lower (fst kv), snd kv)) hs) (py_lower key)"

definition get_current_user_claims ::
  "env \<Rightarrow> request \<Rightarrow> AzureADSettings \<Rightarrow> world \<Rightarrow> (exn + pdict) \<times> world" where
  "get_current_user_claims E req settings w =
     (case headers_get (headers req) ''Authorization'' of
        None \<Rightarrow>
          (Inl (HTTPException 401 ''Falta encabezado Authorization con Bearer token''), w)
      | Some auth_header \<Rightarrow>
          if auth_header = [] \<or> \<not> prefix ''bearer '' (py_lower auth_header)
          then (Inl (HTTPException 401 ''Falta encabezado Authorization con Bearer token''), w)
          else
            (case py_index (py_split1 auth_header) 1 of
               Inl e \<Rightarrow> (Inl e, w)
             | Inr part \<Rightarrow>
                 (let token = py_strip part in
                  if token = []
                  then (Inl (HTTPException 401 (''Token Bearer vac'' @ [CHR 0xED] @ ''o'')), w)
                  else validate_jwt E token settings w)))"

text \<open>The body the endpoint \<open>/auth/me\<close> answers with.\<close>

definition user_response :: "user_info \<Rightarrow> json" where
  "user_response u =
     JObj [(''user'',
            JObj [(''id'', info_id u), (''name'', info_name u), (''email'', info_email u),
                  (''groups'', JList (map JStr (info_groups u)))])]"

definition read_current_user ::
  "env \<Rightarrow> request \<Rightarrow> AzureADSettings \<Rightarrow> world \<Rightarrow> (exn + json) \<times> world" where
  "read_current_user E req settings w =
     (case get_current_user_claims E req settings w of
        (Inl e, w') \<Rightarrow> (Inl e, w')
      | (Inr claims, w') \<Rightarrow>
          (case build_user_info_from_claims E claims of
             Inl e \<Rightarrow> (Inl e, w')
           | Inr u \<Rightarrow> (Inr (user_response u), w')))"

section \<open>The candidate pairs, as a list\<close>

text \<open>
  The four (audience, issuer) pairs in the order of the nested loops, audiences outside
  and issuers inside, and the loop over such a list. For a call of the verifier on the
  pair \<open>p\<close> that begins when \<open>t\<close> clock samples have been read, \<open>outcome_of\<close> is what it
  answers and \<open>reads_of\<close> the number of samples it reads; \<open>clock_after\<close> is where the clock
  stands after calls on a list of pairs, one after the other, and \<open>log_entries\<close> what
  these calls leave in the log. \<open>attempt\<close> is the outcome of the call on the \<open>j\<close>-th of the
  four pairs, made after the calls on the pairs before it, the first of them beginning
  at \<open>t0\<close>.
\<close>

definition legacy_issuer :: "AzureADSettings \<Rightarrow> string" where
  "legacy_issuer settings = ''https://sts.windows.net/'' @ tenant_id settings @ ''/''"

definition allowed_pairs :: "AzureADSettings \<Rightarrow> (string \<times> string) list" where
  "allowed_pairs settings =
     [(audience settings, issuer settings), (audience settings, legacy_issuer settings),
      (client_id settings, issuer settings), (client_id settings, legacy_issuer settings)]"

definition outcome_of :: "env \<Rightarrow> string \<Rightarrow> json \<Rightarrow> string \<times> string \<Rightarrow> nat \<Rightarrow> exn + pdict" where
  "outcome_of E token key p t =
     fst (decode E token key [''RS256''] (fst p) (snd p) (\<lambda>i. now_at E (t + i)))"

definition reads_of :: "env \<Rightarrow> string \<Rightarrow> json \<Rightarrow> string \<times> string \<Rightarrow> nat \<Rightarrow> nat" where
  "reads_of E token key p t =
     snd (decode E token key [''RS256''] (fst p) (snd p) (\<lambda>i. now_at E (t + i)))"

fun clock_after :: "env \<Rightarrow> string \<Rightarrow> json \<Rightarrow> nat \<Rightarrow> (string \<times> string) list \<Rightarrow> nat" where
  "clock_after E token key t [] = t"
| "clock_after E token key t (p # ps) =
     clock_after E token key (t + reads_of E token key p t) ps"

definition attempt :: "env \<Rightarrow> string \<Rightarrow> json \<Rightarrow> AzureADSettings \<Rightarrow> nat \<Rightarrow> nat \<Rightarrow> exn + pdict" where
  "attempt E token key settings t0 j =
     outcome_of E token key (allowed_pairs settings ! j)
       (clock_after E token key t0 (take j (allowed_pairs settings)))"

fun try_pairs ::
  "env \<Rightarrow> string \<Rightarrow> json \<Rightarrow> (string \<times> string) list \<Rightarrow> exn option \<Rightarrow> world
     \<Rightarrow> loop_result \<times> world" where
  "try_pairs E token key [] last_error w = (Completed last_error, w)"
| "try_pairs E token key (p # ps) last_error w =
     (case jwt_decode E token key [''RS256''] (fst p) (snd p) w of
        (Inr claims, w') \<Rightarrow> (Returned claims, w')
      | (Inl (JWTError m), w') \<Rightarrow> try_pairs E token key ps (Some (JWTError m)) w'
      | (Inl e, w') \<Rightarrow> (Raised e, w'))"

fun log_entries ::
  "env \<Rightarrow> string \<Rightarrow> json \<Rightarrow> nat \<Rightarrow> (string \<times> string) list \<Rightarrow> (string \<times> string \<times> nat) list" where
  "log_entries E token key t [] = []"
| "log_entries E token key t (p # ps) =
     (fst p, snd p, t) # log_entries E token key (t + reads_of E token key p t) ps"


section \<open>Callers of the memoised key set, step by step\<close>






section \<open>A concrete provider, token set and clock\<close>

text \<open>
  A tenant \<open>t1\<close> whose key set has the one key \<open>k1\<close>; tokens named by what their header
  holds; and a verifier that accepts, from time 0 until time 106, the audience
  \<open>client-1\<close> with the legacy issuer of \<open>t1\<close>. Like the library it reads no clock when the
  signature fails, then reads one sample for \<open>nbf\<close> and one for \<open>exp\<close>, and checks
  audience and issuer after them. The clock of \<open>frozen_env\<close> stands at 100; that of
  \<open>ticking_env\<close> starts there and advances by one at every read.
\<close>

definition demo_settings :: AzureADSettings where
  "demo_settings =
     \<lparr>tenant_id = ''t1'', client_id = ''client-1'',
      issuer = ''https://login.microsoftonline.com/t1/v2.0'',
      openid_config_url = ''https://idp.example/t1/openid-configuration'',
      jwks_uri = None, audience = ''api://client-1''\<rparr>"

definition demo_key :: json where
  "demo_key = JObj [(''kid'', JStr ''k1''), (''kty'', JStr ''RSA'')]"

definition demo_jwks :: json where
  "demo_jwks = JObj [(''keys'', JList [demo_key])]"

definition demo_http :: "nat \<Rightarrow> string \<Rightarrow> exn + http_response" where
  "demo_http n url =
     (if url = ''https://idp.example/t1/openid-configuration''
      then Inr \<lparr>status_code = 200,
                json_body = Inr (JObj [(''jwks_uri'', JStr ''https://idp.example/t1/keys'')])\<rparr>
      else if url = ''https://idp.example/t1/keys''
      then Inr \<lparr>status_code = 200, json_body = Inr demo_jwks\<rparr>
      else Inr \<lparr>status_code = 404, json_body = Inl (JSONDecodeError ''Expecting value'')\<rparr>)"

definition demo_header :: "string \<Rightarrow> exn + pdict" where
  "demo_header token =
     (if token = ''tok-k1'' then Inr [(''alg'', JStr ''RS256''), (''kid'', JStr ''k1'')]
      else if token = ''tok-k9'' then Inr [(''alg'', JStr ''RS256''), (''kid'', JStr ''k9'')]
      else if token = ''tok-nokid'' then Inr [(''alg'', JStr ''RS256'')]
      else Inl (JWTError ''Error decoding token headers.''))"

definition demo_claims :: pdict where
  "demo_claims =
     [(''sub'', JStr ''u1''), (''preferred_username'', JStr ''a@b.com''),
      (''groups'', JList [JStr ''g1'', JStr ''g2''])]"

definition demo_decode ::
  "string \<Rightarrow> json \<Rightarrow> string list \<Rightarrow> string \<Rightarrow> string \<Rightarrow> (nat \<Rightarrow> int)
     \<Rightarrow> (exn + pdict) \<times> nat" where
  "demo_decode token key algorithms aud iss clk =
     (if key \<noteq> demo_key then (Inl (JWTError ''Signature verification failed.''), 0)
      else if clk 0 < 0 then (Inl (JWTError ''The token is not yet valid (nbf)''), 1)
      else if 106 < clk 1 then (Inl (JWTError ''Signature has expired.''), 2)
      else if aud \<noteq> ''client-1'' then (Inl (JWTError ''Invalid audience''), 2)
      else if iss \<noteq> ''https://sts.windows.net/t1/''
      then (Inl (JWTError ''Invalid issuer''), 2)
      else (Inr demo_claims, 2))"

definition demo_repr :: "json \<Rightarrow> string" where
  "demo_repr x = ''?''"

definition frozen_env :: env where
  "frozen_env =
     \<lparr>http_get = demo_http, now_at = (\<lambda>n. 100), get_unverified_header = demo_header,
      decode = demo_decode, py_repr = demo_repr\<rparr>"

definition ticking_env :: env where
  "ticking_env =
     \<lparr>http_get = demo_http, now_at = (\<lambda>n. 100 + int n), get_unverified_header = demo_header,
      decode = demo_decode, py_repr = demo_repr\<rparr>"

definition cold_world :: world where
  "cold_world = \<lparr>openid_cache = [], jwks_cache = [], http_log = [], clock = 0, decode_log = []\<rparr>"

definition warm_world :: world where
  "warm_world =
     \<lparr>openid_cache = [], jwks_cache = [(demo_settings, demo_jwks)], http_log = [], clock = 0,
      decode_log = []\<rparr>"





text \<open>
  Five requests: one with the bearer token \<open>tok-k1\<close>, one that writes the scheme in
  capitals and pads the token with spaces, one with no \<open>Authorization\<close> header, one whose
  token is blanks and a tab only, and one whose token has blanks before and a tab and a
  blank after.
\<close>

definition bearer_request :: request where
  "bearer_request = \<lparr>headers = [(''accept'', ''*/*''), (''authorization'', ''Bearer tok-k1'')]\<rparr>"

definition shouting_request :: request where
  "shouting_request = \<lparr>headers = [(''authorization'', ''BEARER  tok-k1 '')]\<rparr>"

definition anonymous_request :: request where
  "anonymous_request = \<lparr>headers = [(''accept'', ''*/*'')]\<rparr>"

definition blank_request :: request where
  "blank_request = \<lparr>headers = [(''authorization'', ''Bearer   '' @ [CHR 0x09] @ '' '')]\<rparr>"

definition padded_request :: request where
  "padded_request =
     \<lparr>headers = [(''authorization'', ''Bearer   tok-k1'' @ [CHR 0x09] @ '' '')]\<rparr>"

section \<open>The nested loops run the list of pairs\<close>

lemma try_issuers_pairs:
  "try_issuers E token key aud isss last_error w =
     try_pairs E token key (map (Pair aud) isss) last_error w"
  by (induction isss arbitrary: last_error w)
     (auto split: prod.splits sum.splits exn.splits)

lemma try_pairs_append:
  "try_pairs E token key (ps @ qs) last_error w =
     (case try_pairs E token key ps last_error w of
        (Completed l, w') \<Rightarrow> try_pairs E token key qs l w'
      | (r, w') \<Rightarrow> (r, w'))"
  by (induction ps arbitrary: last_error w)
     (auto split: prod.splits sum.splits exn.splits loop_result.splits)

lemma try_audiences_pairs:
  "try_audiences E token key auds isss last_error w =
     try_pairs E token key (List.product auds isss) last_error w"
  by (induction auds arbitrary: last_error w)
     (auto simp: try_issuers_pairs try_pairs_append split: prod.splits loop_result.splits)

lemma product_allowed:
  "List.product [audience s, client_id s] [issuer s, ''https://sts.windows.net/'' @ tenant_id s @ ''/'']
     = allowed_pairs s"
  by (simp add: allowed_pairs_def legacy_issuer_def)

lemma jwt_decode_pair:
  "jwt_decode E token key [''RS256''] (fst p) (snd p) w =
     (outcome_of E token key p (clock w),
      w\<lparr>clock := clock w + reads_of E token key p (clock w),
        decode_log := decode_log w @ [(fst p, snd p, clock w)]\<rparr>)"
  by (simp add: jwt_decode_def outcome_of_def reads_of_def split: prod.splits)

lemma try_pairs_first_success:
  "k < length ps \<Longrightarrow>
   \<forall>j<k. \<exists>m. outcome_of E token key (ps ! j) (clock_after E token key (clock w) (take j ps))
                 = Inl (JWTError m) \<Longrightarrow>
   outcome_of E token key (ps ! k) (clock_after E token key (clock w) (take k ps)) = Inr c \<Longrightarrow>
   try_pairs E token key ps last_error w =
     (Returned c, w\<lparr>clock := clock_after E token key (clock w) (take (Suc k) ps),
                    decode_log := decode_log w
                      @ log_entries E token key (clock w) (take (Suc k) ps)\<rparr>)"
proof (induction ps arbitrary: k w last_error)
  case Nil
  then show ?case by simp
next
  case (Cons p ps)
  show ?case
  proof (cases k)
    case 0
    with Cons.prems show ?thesis by (simp add: jwt_decode_pair)
  next
    case (Suc k')
    from Cons.prems(2) Suc have "\<exists>m. outcome_of E token key ((p # ps) ! 0)
         (clock_after E token key (clock w) (take 0 (p # ps))) = Inl (JWTError m)"
      by blast
    then obtain m where m: "outcome_of E token key p (clock w) = Inl (JWTError m)"
      by auto
    let ?w' = "w\<lparr>clock := clock w + reads_of E token key p (clock w),
                  decode_log := decode_log w @ [(fst p, snd p, clock w)]\<rparr>"
    have 1: "k' < length ps" using Cons.prems(1) Suc by simp
    have 2: "\<forall>j<k'. \<exists>m. outcome_of E token key (ps ! j)
                 (clock_after E token key (clock ?w') (take j ps)) = Inl (JWTError m)"
    proof (intro allI impI)
      fix j assume "j < k'"
      then have "Suc j < k" using Suc by simp
      with Cons.prems(2) have "\<exists>m. outcome_of E token key ((p # ps) ! Suc j)
          (clock_after E token key (clock w) (take (Suc j) (p # ps))) = Inl (JWTError m)"
        by blast
      then show "\<exists>m. outcome_of E token key (ps ! j)
                 (clock_after E token key (clock ?w') (take j ps)) = Inl (JWTError m)"
        by simp
    qed
    have 3: "outcome_of E token key (ps ! k')
               (clock_after E token key (clock ?w') (take k' ps)) = Inr c"
      using Cons.prems(3) Suc by simp
    from Cons.IH[OF 1 2 3, of "Some (JWTError m)"] m Suc show ?thesis
      by (simp add: jwt_decode_pair)
  qed
qed

lemma try_pairs_all_fail:
  "\<forall>j<length ps. \<exists>m. outcome_of E token key (ps ! j)
                 (clock_after E token key (clock w) (take j ps)) = Inl (JWTError m) \<Longrightarrow>
   try_pairs E token key ps last_error w =
     (Completed (if ps = [] then last_error
                 else (case outcome_of E token key (last ps)
                              (clock_after E token key (clock w) (butlast ps)) of
                         Inl e \<Rightarrow> Some e | Inr c \<Rightarrow> None)),
      w\<lparr>clock := clock_after E token key (clock w) ps,
        decode_log := decode_log w @ log_entries E token key (clock w) ps\<rparr>)"
proof (induction ps arbitrary: w last_error)
  case Nil
  then show ?case by simp
next
  case (Cons p ps)
  from Cons.prems have "\<exists>m. outcome_of E token key ((p # ps) ! 0)
         (clock_after E token key (clock w) (take 0 (p # ps))) = Inl (JWTError m)"
    by (intro Cons.prems[rule_format]) simp
  then obtain m where m: "outcome_of E token key p (clock w) = Inl (JWTError m)"
    by auto
  let ?w' = "w\<lparr>clock := clock w + reads_of E token key p (clock w),
                decode_log := decode_log w @ [(fst p, snd p, clock w)]\<rparr>"
  have 2: "\<forall>j<length ps. \<exists>m. outcome_of E token key (ps ! j)
                 (clock_after E token key (clock ?w') (take j ps)) = Inl (JWTError m)"
  proof (intro allI impI)
    fix j assume "j < length ps"
    then have "Suc j < length (p # ps)" by simp
    with Cons.prems have "\<exists>m. outcome_of E token key ((p # ps) ! Suc j)
          (clock_after E token key (clock w) (take (Suc j) (p # ps))) = Inl (JWTError m)"
      by blast
    then show "\<exists>m. outcome_of E token key (ps ! j)
                 (clock_after E token key (clock ?w') (take j ps)) = Inl (JWTError m)"
      by simp
  qed
  have step: "try_pairs E token key (p # ps) last_error w =
                try_pairs E token key ps (Some (JWTError m)) ?w'"
    using m by (simp add: jwt_decode_pair)
  have comp: "(if ps = [] then Some (JWTError m)
               else (case outcome_of E token key (last ps)
                            (clock_after E token key (clock ?w') (butlast ps)) of
                       Inl e \<Rightarrow> Some e | Inr c \<Rightarrow> None)) =
              (case outcome_of E token key (last (p # ps))
                      (clock_after E token key (clock w) (butlast (p # ps))) of
                 Inl e \<Rightarrow> Some e | Inr c \<Rightarrow> None)"
    using m by (cases ps) simp_all
  have wld: "?w'\<lparr>clock := clock_after E token key (clock ?w') ps,
                decode_log := decode_log ?w' @ log_entries E token key (clock ?w') ps\<rparr> =
             w\<lparr>clock := clock_after E token key (clock w) (p # ps),
               decode_log := decode_log w @ log_entries E token key (clock w) (p # ps)\<rparr>"
    by simp
  show ?case
    unfolding step Cons.IH[OF 2, of "Some (JWTError m)"] comp wld by simp
qed


lemma validate_jwt_pairs:
  assumes "get_jwks E settings w = (Inr jwks, w1)"
      and "get_signing_key E token jwks = Inr key"
  shows "validate_jwt E token settings w =
     (case try_pairs E token key (allowed_pairs settings) None w1 of
        (Returned claims, w2) \<Rightarrow> (Inr claims, w2)
      | (Raised e, w2) \<Rightarrow> (Inl e, w2)
      | (Completed last_error, w2) \<Rightarrow>
          (Inl (HTTPException 401
             (''Token inv'' @ [CHR 0xE1] @ ''lido: '' @ str_of_error last_error)), w2))"
  unfolding validate_jwt_def Let_def try_audiences_pairs product_allowed
  using assms by simp

lemma length_allowed_pairs: "length (allowed_pairs settings) = 4"
  by (simp add: allowed_pairs_def)

lemma less_4_cases: "(j::nat) < 4 \<longleftrightarrow> j = 0 \<or> j = 1 \<or> j = 2 \<or> j = 3"
  by auto
lemma less_3_cases: "(j::nat) < 3 \<longleftrightarrow> j = 0 \<or> j = 1 \<or> j = 2"
  by auto

section \<open>Evaluating the concrete provider\<close>

lemmas demo_defs =
  demo_settings_def demo_key_def demo_jwks_def demo_http_def demo_header_def demo_claims_def
  demo_decode_def demo_repr_def frozen_env_def ticking_env_def cold_world_def warm_world_def

lemmas lookup_defs =
  get_jwks_def get_jwks_body_def get_openid_config_def client_get_json_def raise_for_status_def
  opt_json_def url_arg_def py_get_def py_get_default_def py_iter_def dict_get_def
  get_signing_key_def

lemmas attempt_defs =
  attempt_def outcome_of_def reads_of_def allowed_pairs_def legacy_issuer_def

lemma demo_get_jwks_warm: "get_jwks E demo_settings warm_world = (Inr demo_jwks, warm_world)"
  by (simp add: get_jwks_def warm_world_def)

lemma demo_key_k1: "get_signing_key frozen_env ''tok-k1'' demo_jwks = Inr demo_key"
  by (simp add: demo_defs lookup_defs)

lemma demo_key_k1_ticking: "get_signing_key ticking_env ''tok-k1'' demo_jwks = Inr demo_key"
  by (simp add: demo_defs lookup_defs)

lemma demo_validate_k1:
  "validate_jwt frozen_env ''tok-k1'' demo_settings warm_world =
     (Inr demo_claims,
      warm_world\<lparr>clock := 8,
        decode_log :=
          [(''api://client-1'', ''https://login.microsoftonline.com/t1/v2.0'', 0),
           (''api://client-1'', ''https://sts.windows.net/t1/'', 2),
           (''client-1'', ''https://login.microsoftonline.com/t1/v2.0'', 4),
           (''client-1'', ''https://sts.windows.net/t1/'', 6)]\<rparr>)"
  unfolding validate_jwt_def demo_get_jwks_warm
  by (simp add: demo_key_k1)
     (simp add: jwt_decode_def demo_settings_def demo_decode_def frozen_env_def warm_world_def)

section \<open>Order of the verification attempts\<close>

text \<open>
  C1. Once the key set is there and the signing key is found, \<open>validate_jwt\<close> tries
  the four (audience, issuer) pairs of \<open>allowed_pairs\<close> in their order: configured
  audience then bare client identifier outside, configured issuer then legacy issuer
  \<open>https://sts.windows.net/{tenant_id}/\<close> inside. If the pair at position \<open>k\<close> is the first
  that verifies, every earlier one failing verification, the calls made to the verifier
  are exactly the pairs at positions \<open>0..k\<close>, in that order and one call each, and the
  result is the claims the pair at \<open>k\<close> gave.
\<close>

theorem validate_jwt_first_success:
  assumes "get_jwks E settings w = (Inr jwks, w1)"
      and "get_signing_key E token jwks = Inr key"
      and "k < 4"
      and "\<forall>j<k. \<exists>m. attempt E token key settings (clock w1) j = Inl (JWTError m)"
      and "attempt E token key settings (clock w1) k = Inr claims"
  shows "validate_jwt E token settings w =
           (Inr claims,
            w1\<lparr>clock := clock_after E token key (clock w1) (take (Suc k) (allowed_pairs settings)),
               decode_log := decode_log w1
                 @ log_entries E token key (clock w1) (take (Suc k) (allowed_pairs settings))\<rparr>)"
proof -
  have k: "k < length (allowed_pairs settings)"
    using assms(3) by (simp add: length_allowed_pairs)
  have "try_pairs E token key (allowed_pairs settings) None w1 =
          (Returned claims,
            w1\<lparr>clock := clock_after E token key (clock w1) (take (Suc k) (allowed_pairs settings)),
               decode_log := decode_log w1
                 @ log_entries E token key (clock w1) (take (Suc k) (allowed_pairs settings))\<rparr>)"
    using assms(4,5) unfolding attempt_def by (intro try_pairs_first_success[OF k])
  then show ?thesis
    by (simp add: validate_jwt_pairs[OF assms(1,2)])
qed

theorem validate_jwt_first_success_witness:
  "validate_jwt frozen_env ''tok-k1'' demo_settings warm_world =
     (Inr demo_claims,
      warm_world\<lparr>clock := 8,
        decode_log :=
          [(''api://client-1'', ''https://login.microsoftonline.com/t1/v2.0'', 0),
           (''api://client-1'', ''https://sts.windows.net/t1/'', 2),
           (''client-1'', ''https://login.microsoftonline.com/t1/v2.0'', 4),
           (''client-1'', ''https://sts.windows.net/t1/'', 6)]\<rparr>)"
proof -
  have fails: "\<forall>j<3. \<exists>m. attempt frozen_env ''tok-k1'' demo_key demo_settings (clock warm_world) j
                  = Inl (JWTError m)"
    by (simp add: less_3_cases attempt_defs warm_world_def
          demo_settings_def demo_decode_def frozen_env_def)
  have ok: "attempt frozen_env ''tok-k1'' demo_key demo_settings (clock warm_world) 3 = Inr demo_claims"
    by (simp add: attempt_defs warm_world_def
          demo_settings_def demo_decode_def frozen_env_def)
  have "validate_jwt frozen_env ''tok-k1'' demo_settings warm_world =
           (Inr demo_claims,
            warm_world\<lparr>clock := clock_after frozen_env ''tok-k1'' demo_key (clock warm_world)
                                  (take (Suc 3) (allowed_pairs demo_settings)),
               decode_log := decode_log warm_world
                 @ log_entries frozen_env ''tok-k1'' demo_key (clock warm_world)
                     (take (Suc 3) (allowed_pairs demo_settings))\<rparr>)"
    using validate_jwt_first_success[OF demo_get_jwks_warm demo_key_k1 _ fails ok] by simp
  then show ?thesis
    by (simp add: attempt_defs demo_settings_def demo_decode_def frozen_env_def
          warm_world_def)
qed

section \<open>Exhaustion of the pairs\<close>

text \<open>
  C2. When all four verification attempts fail, \<open>validate_jwt\<close> fails with an
  \<open>HTTPException\<close> of status 401 (the rejected-token failure) whose detail is the fixed
  prefix followed by the message of the fourth, last attempt's error. The messages
  \<open>m0\<close>, \<open>m1\<close> and \<open>m2\<close> of the earlier attempts are not part of it.
\<close>

theorem validate_jwt_all_fail:
  assumes "get_jwks E settings w = (Inr jwks, w1)"
      and "get_signing_key E token jwks = Inr key"
      and "attempt E token key settings (clock w1) 0 = Inl (JWTError m0)"
      and "attempt E token key settings (clock w1) 1 = Inl (JWTError m1)"
      and "attempt E token key settings (clock w1) 2 = Inl (JWTError m2)"
      and "attempt E token key settings (clock w1) 3 = Inl (JWTError m3)"
  shows "validate_jwt E token settings w =
           (Inl (HTTPException 401 (''Token inv'' @ [CHR 0xE1] @ ''lido: '' @ m3)),
            w1\<lparr>clock := clock_after E token key (clock w1) (allowed_pairs settings),
               decode_log := decode_log w1
                 @ log_entries E token key (clock w1) (allowed_pairs settings)\<rparr>)"
proof -
  have all: "\<forall>j<length (allowed_pairs settings).
               \<exists>m. outcome_of E token key (allowed_pairs settings ! j)
                     (clock_after E token key (clock w1) (take j (allowed_pairs settings)))
                   = Inl (JWTError m)"
    using assms(3-6) unfolding attempt_def length_allowed_pairs less_4_cases by auto
  have bl: "butlast (allowed_pairs settings) = take 3 (allowed_pairs settings)"
    by (simp add: allowed_pairs_def)
  have la: "last (allowed_pairs settings) = allowed_pairs settings ! 3"
    by (simp add: allowed_pairs_def)
  have lst: "outcome_of E token key (last (allowed_pairs settings))
               (clock_after E token key (clock w1) (butlast (allowed_pairs settings)))
             = Inl (JWTError m3)"
    using assms(6) unfolding attempt_def bl la by simp
  have ne: "allowed_pairs settings \<noteq> []"
    by (simp add: allowed_pairs_def)
  have "try_pairs E token key (allowed_pairs settings) None w1 =
          (Completed (Some (JWTError m3)),
           w1\<lparr>clock := clock_after E token key (clock w1) (allowed_pairs settings),
              decode_log := decode_log w1
                @ log_entries E token key (clock w1) (allowed_pairs settings)\<rparr>)"
    using try_pairs_all_fail[OF all, of None] lst ne by simp
  then show ?thesis
    by (simp add: validate_jwt_pairs[OF assms(1,2)] str_of_error_def)
qed

theorem validate_jwt_all_fail_witness:
  "validate_jwt ticking_env ''tok-k1'' demo_settings warm_world =
     (Inl (HTTPException 401 (''Token inv'' @ [CHR 0xE1] @ ''lido: Signature has expired.'')),
      warm_world\<lparr>clock := 8,
        decode_log :=
          [(''api://client-1'', ''https://login.microsoftonline.com/t1/v2.0'', 0),
           (''api://client-1'', ''https://sts.windows.net/t1/'', 2),
           (''client-1'', ''https://login.microsoftonline.com/t1/v2.0'', 4),
           (''client-1'', ''https://sts.windows.net/t1/'', 6)]\<rparr>)"
proof -
  have a0: "attempt ticking_env ''tok-k1'' demo_key demo_settings (clock warm_world) 0
              = Inl (JWTError ''Invalid audience'')"
    by (simp add: attempt_defs warm_world_def
          demo_settings_def demo_decode_def ticking_env_def)
  have a1: "attempt ticking_env ''tok-k1'' demo_key demo_settings (clock warm_world) 1
              = Inl (JWTError ''Invalid audience'')"
    by (simp add: attempt_defs warm_world_def
          demo_settings_def demo_decode_def ticking_env_def)
  have a2: "attempt ticking_env ''tok-k1'' demo_key demo_settings (clock warm_world) 2
              = Inl (JWTError ''Invalid issuer'')"
    by (simp add: attempt_defs warm_world_def
          demo_settings_def demo_decode_def ticking_env_def)
  have a3: "attempt ticking_env ''tok-k1'' demo_key demo_settings (clock warm_world) 3
              = Inl (JWTError ''Signature has expired.'')"
    by (simp add: attempt_defs warm_world_def
          demo_settings_def demo_decode_def ticking_env_def)
  show ?thesis
    using validate_jwt_all_fail[OF demo_get_jwks_warm demo_key_k1_ticking a0 a1 a2 a3]
    by (simp add: attempt_defs demo_settings_def demo_decode_def ticking_env_def
          warm_world_def)
qed

section \<open>The clock of the verification attempts\<close>


















section \<open>Signing key resolution\<close>

lemma find_key_none:
  "\<forall>key\<in>set keys. \<exists>d. key = JObj d \<and> \<not> py_eq (dict_get d ''kid'') kid \<Longrightarrow>
   find_key keys kid = Inr None"
  by (induction keys) (auto simp: py_get_def py_get_default_def dict_get_def)

lemma client_get_json_log:
  "http_log (snd (client_get_json E url w)) = http_log w @ [url]"
  by (simp add: client_get_json_def Let_def split: sum.splits)

lemma get_openid_config_log:
  "length (http_log (snd (get_openid_config E settings w))) \<le> length (http_log w) + 1"
  using client_get_json_log[of E "openid_config_url settings" w]
  by (auto simp: get_openid_config_def split: option.splits prod.splits sum.splits)

lemma get_jwks_body_log:
  "length (http_log (snd (get_jwks_body E settings w))) \<le> length (http_log w) + 2"
proof (cases "py_truthy (opt_json (jwks_uri settings))")
  case True
  then show ?thesis
    using client_get_json_log[of E _ w]
    by (auto simp: get_jwks_body_def split: sum.splits)
next
  case False
  obtain r w' where g: "get_openid_config E settings w = (r, w')"
    by (cases "get_openid_config E settings w")
  with get_openid_config_log[of E settings w]
  have w': "length (http_log w') \<le> length (http_log w) + 1" by simp
  show ?thesis
    using False g w' client_get_json_log[of E _ w']
    by (auto simp: get_jwks_body_def split: sum.splits)
qed

lemma get_jwks_log:
  "length (http_log (snd (get_jwks E settings w))) \<le> length (http_log w) + 2"
  using get_jwks_body_log[of E settings w]
  by (auto simp: get_jwks_def split: option.splits prod.splits sum.splits)

lemma get_jwks_cached:
  "map_of (jwks_cache w) settings = Some jwks \<Longrightarrow> get_jwks E settings w = (Inr jwks, w)"
  by (simp add: get_jwks_def)

lemma demo_get_jwks_cold:
  "get_jwks frozen_env demo_settings cold_world =
     (Inr demo_jwks,
      \<lparr>openid_cache =
         [(demo_settings, JObj [(''jwks_uri'', JStr ''https://idp.example/t1/keys'')])],
       jwks_cache = [(demo_settings, demo_jwks)],
       http_log = [''https://idp.example/t1/openid-configuration'', ''https://idp.example/t1/keys''],
       clock = 0, decode_log = []\<rparr>)"
  by (simp add: get_jwks_def get_jwks_body_def get_openid_config_def client_get_json_def
        raise_for_status_def opt_json_def url_arg_def py_get_def py_get_default_def
        cold_world_def frozen_env_def demo_http_def demo_settings_def)

text \<open>
  C6. With the key set in hand (from the cache, or fetched by this call), a token whose
  header carries a key identifier that no entry of the key set has is rejected with
  status 401 and the unknown-signing-key detail; a token whose header has no \<open>kid\<close>, or
  an empty one, is rejected with status 401 and the missing-key-identifier detail. The
  state after the failure is the state after the key set was obtained: nothing is
  requested after the miss. Obtaining the key set costs at most two requests, and none
  when it is cached, so the key set is refreshed at most once (in fact never) before
  failing.
\<close>

theorem unknown_kid_rejected:
  assumes "get_jwks E settings w = (Inr jwks, w1)"
      and "get_unverified_header E token = Inr hdr"
  shows
    "(py_truthy (dict_get hdr ''kid'') \<and>
      py_get_default jwks ''keys'' (JList []) = Inr (JList keys) \<and>
      (\<forall>key\<in>set keys. \<exists>d. key = JObj d \<and> \<not> py_eq (dict_get d ''kid'') (dict_get hdr ''kid''))
        \<longrightarrow> validate_jwt E token settings w =
              (Inl (HTTPException 401
                 (''No se encontr'' @ [CHR 0xF3] @ '' clave de firma para el token'')), w1))
     \<and> (map_of hdr ''kid'' = None \<or> \<not> py_truthy (dict_get hdr ''kid'')
        \<longrightarrow> validate_jwt E token settings w =
              (Inl (HTTPException 401
                 (''Token sin '' @ [CHR 0x27] @ ''kid'' @ [CHR 0x27] @ '' en el encabezado'')), w1))
     \<and> length (http_log w1) \<le> length (http_log w) + 2
     \<and> (map_of (jwks_cache w) settings \<noteq> None \<longrightarrow> w1 = w)"
proof (intro conjI impI)
  assume h: "py_truthy (dict_get hdr ''kid'') \<and>
      py_get_default jwks ''keys'' (JList []) = Inr (JList keys) \<and>
      (\<forall>key\<in>set keys. \<exists>d. key = JObj d \<and> \<not> py_eq (dict_get d ''kid'') (dict_get hdr ''kid''))"
  then have "find_key keys (dict_get hdr ''kid'') = Inr None"
    by (intro find_key_none) blast
  with h assms(2) have "get_signing_key E token jwks =
      Inl (HTTPException 401 (''No se encontr'' @ [CHR 0xF3] @ '' clave de firma para el token''))"
    by (simp add: get_signing_key_def py_iter_def)
  with assms(1) show "validate_jwt E token settings w =
              (Inl (HTTPException 401
                 (''No se encontr'' @ [CHR 0xF3] @ '' clave de firma para el token'')), w1)"
    by (simp add: validate_jwt_def)
next
  assume "map_of hdr ''kid'' = None \<or> \<not> py_truthy (dict_get hdr ''kid'')"
  then have "\<not> py_truthy (dict_get hdr ''kid'')"
    by (auto simp: dict_get_def)
  with assms(2) have "get_signing_key E token jwks =
      Inl (HTTPException 401 (''Token sin '' @ [CHR 0x27] @ ''kid'' @ [CHR 0x27] @ '' en el encabezado''))"
    by (simp add: get_signing_key_def)
  with assms(1) show "validate_jwt E token settings w =
              (Inl (HTTPException 401
                 (''Token sin '' @ [CHR 0x27] @ ''kid'' @ [CHR 0x27] @ '' en el encabezado'')), w1)"
    by (simp add: validate_jwt_def)
next
  show "length (http_log w1) \<le> length (http_log w) + 2"
    using get_jwks_log[of E settings w] assms(1) by simp
next
  assume "map_of (jwks_cache w) settings \<noteq> None"
  then obtain j where "map_of (jwks_cache w) settings = Some j" by blast
  from get_jwks_cached[OF this, of E] assms(1) show "w1 = w" by simp
qed

theorem unknown_kid_rejected_witness:
  "validate_jwt frozen_env ''tok-k9'' demo_settings cold_world =
     (Inl (HTTPException 401 (''No se encontr'' @ [CHR 0xF3] @ '' clave de firma para el token'')),
      \<lparr>openid_cache =
         [(demo_settings, JObj [(''jwks_uri'', JStr ''https://idp.example/t1/keys'')])],
       jwks_cache = [(demo_settings, demo_jwks)],
       http_log = [''https://idp.example/t1/openid-configuration'', ''https://idp.example/t1/keys''],
       clock = 0, decode_log = []\<rparr>)
   \<and> validate_jwt frozen_env ''tok-nokid'' demo_settings warm_world =
     (Inl (HTTPException 401
        (''Token sin '' @ [CHR 0x27] @ ''kid'' @ [CHR 0x27] @ '' en el encabezado'')), warm_world)"
proof -
  have h9: "get_unverified_header frozen_env ''tok-k9'' =
              Inr [(''alg'', JStr ''RS256''), (''kid'', JStr ''k9'')]"
    by (simp add: frozen_env_def demo_header_def)
  have h0: "get_unverified_header frozen_env ''tok-nokid'' = Inr [(''alg'', JStr ''RS256'')]"
    by (simp add: frozen_env_def demo_header_def)
  have p9: "py_truthy (dict_get [(''alg'', JStr ''RS256''), (''kid'', JStr ''k9'')] ''kid'') \<and>
      py_get_default demo_jwks ''keys'' (JList []) = Inr (JList [demo_key]) \<and>
      (\<forall>key\<in>set [demo_key]. \<exists>d. key = JObj d \<and>
         \<not> py_eq (dict_get d ''kid'')
              (dict_get [(''alg'', JStr ''RS256''), (''kid'', JStr ''k9'')] ''kid''))"
    by (simp add: dict_get_def py_get_default_def demo_jwks_def demo_key_def)
  have p0: "map_of [(''alg'', JStr ''RS256'')] ''kid'' = None" by simp
  from unknown_kid_rejected[OF demo_get_jwks_cold h9, of "[demo_key]"] p9
  have a: "validate_jwt frozen_env ''tok-k9'' demo_settings cold_world =
     (Inl (HTTPException 401 (''No se encontr'' @ [CHR 0xF3] @ '' clave de firma para el token'')),
      \<lparr>openid_cache =
         [(demo_settings, JObj [(''jwks_uri'', JStr ''https://idp.example/t1/keys'')])],
       jwks_cache = [(demo_settings, demo_jwks)],
       http_log = [''https://idp.example/t1/openid-configuration'', ''https://idp.example/t1/keys''],
       clock = 0, decode_log = []\<rparr>)"
    by blast
  from unknown_kid_rejected[OF demo_get_jwks_warm h0, of "[]"] p0
  have b: "validate_jwt frozen_env ''tok-nokid'' demo_settings warm_world =
     (Inl (HTTPException 401
        (''Token sin '' @ [CHR 0x27] @ ''kid'' @ [CHR 0x27] @ '' en el encabezado'')), warm_world)"
    by blast
  from a b show ?thesis by blast
qed

section \<open>Tokens whose header cannot be read\<close>

text \<open>
  C9. When the library cannot read the header of the token and raises its \<open>JWTError\<close>,
  \<open>validate_jwt\<close> lets that exception through as it is: the failure is no
  \<open>HTTPException\<close> (not the missing-key-identifier, not the rejected-token failure, no
  401 at all), and the framework answers it with status 500.
\<close>

theorem header_parse_error_propagates:
  assumes "get_jwks E settings w = (Inr jwks, w1)"
      and "get_unverified_header E token = Inl (JWTError m)"
  shows "validate_jwt E token settings w = (Inl (JWTError m), w1)
         \<and> (\<forall>c d. fst (validate_jwt E token settings w) \<noteq> Inl (HTTPException c d))
         \<and> response_status (JWTError m) = 500"
  using assms by (simp add: validate_jwt_def get_signing_key_def)

theorem header_parse_error_propagates_witness:
  "validate_jwt frozen_env ''not-a-jwt'' demo_settings warm_world =
     (Inl (JWTError ''Error decoding token headers.''), warm_world)
   \<and> response_status (JWTError ''Error decoding token headers.'') = 500"
proof -
  have h: "get_unverified_header frozen_env ''not-a-jwt'' =
             Inl (JWTError ''Error decoding token headers.'')"
    by (simp add: frozen_env_def demo_header_def)
  from header_parse_error_propagates[OF demo_get_jwks_warm h] show ?thesis by blast
qed

section \<open>The discovery document\<close>






section \<open>The projection never fails\<close>

lemma first_truthy_absent:
  "\<forall>k\<in>set keys. map_of claims k = None \<Longrightarrow> first_truthy claims keys = None"
  by (induction keys) (simp_all add: dict_get_def)

lemma extract_email_total: "\<exists>v. extract_email_from_claims claims = Inr v"
  by (auto simp: extract_email_from_claims_def py_index_def Let_def
           split: option.splits json.splits)

text \<open>
  C4. For every claims map \<open>build_user_info_from_claims\<close> returns a record and raises
  nothing (the only operation in it that can raise, \<open>emails[0]\<close>, runs on a non-empty
  list). The record keeps the claims; the subject is \<open>None\<close> when neither \<open>oid\<close> nor \<open>sub\<close>
  is there, the name when \<open>name\<close> is not, the email when none of the four email claims is;
  the groups are the empty list when \<open>groups\<close> is missing or is not a list.
\<close>

theorem build_user_info_total:
  "\<exists>u. build_user_info_from_claims E claims = Inr u
       \<and> raw_claims u = claims
       \<and> (map_of claims ''oid'' = None \<and> map_of claims ''sub'' = None \<longrightarrow> info_id u = JNull)
       \<and> (map_of claims ''name'' = None \<longrightarrow> info_name u = JNull)
       \<and> (map_of claims ''preferred_username'' = None \<and> map_of claims ''upn'' = None \<and>
          map_of claims ''email'' = None \<and> map_of claims ''emails'' = None
            \<longrightarrow> info_email u = JNull)
       \<and> ((\<forall>xs. map_of claims ''groups'' \<noteq> Some (JList xs)) \<longrightarrow> info_groups u = [])"
proof -
  obtain v where v: "extract_email_from_claims claims = Inr v"
    using extract_email_total by blast
  have e: "map_of claims ''preferred_username'' = None \<and> map_of claims ''upn'' = None \<and>
          map_of claims ''email'' = None \<and> map_of claims ''emails'' = None \<longrightarrow> v = JNull"
  proof
    assume a: "map_of claims ''preferred_username'' = None \<and> map_of claims ''upn'' = None \<and>
          map_of claims ''email'' = None \<and> map_of claims ''emails'' = None"
    then have "first_truthy claims [''preferred_username'', ''upn'', ''email''] = None"
      by (intro first_truthy_absent) simp
    with a v show "v = JNull"
      by (simp add: extract_email_from_claims_def dict_get_def)
  qed
  have g: "(\<forall>xs. map_of claims ''groups'' \<noteq> Some (JList xs)) \<longrightarrow>
             extract_groups_from_claims E claims = []"
    by (auto simp: extract_groups_from_claims_def dict_get_def Let_def
             split: option.splits json.splits)
  show ?thesis
    using v e g
    by (simp add: build_user_info_from_claims_def dict_get_def Let_def)
qed

theorem build_user_info_total_witness:
  "build_user_info_from_claims frozen_env [] =
     Inr \<lparr>info_id = JNull, info_name = JNull, info_email = JNull, info_groups = [],
          raw_claims = []\<rparr>"
proof -
  from build_user_info_total[of frozen_env "[]"] obtain u where
    u: "build_user_info_from_claims frozen_env [] = Inr u" "raw_claims u = []"
       "info_id u = JNull" "info_name u = JNull" "info_email u = JNull" "info_groups u = []"
    by auto
  have "u = \<lparr>info_id = JNull, info_name = JNull, info_email = JNull, info_groups = [],
          raw_claims = []\<rparr>"
    using u(2-6) by (cases u) simp
  with u(1) show ?thesis by simp
qed

section \<open>The bearer header\<close>

lemma lower_char_space: "lower_char c = CHR '' '' \<longleftrightarrow> c = CHR '' ''"
proof
  assume a: "lower_char c = CHR '' ''"
  define n where "n = (of_char c :: nat)"
  show "c = CHR '' ''"
  proof (cases "(65 \<le> n \<and> n \<le> 90) \<or> (192 \<le> n \<and> n \<le> 222 \<and> n \<noteq> 215)")
    case False
    with a show ?thesis
      unfolding lower_char_def Let_def n_def by simp
  next
    case True
    with a have eq: "char_of (n + 32) = CHR '' ''"
      unfolding lower_char_def Let_def n_def by simp
    have "(of_char (char_of (n + 32) :: char) :: nat) = (n + 32) mod 256"
      by (rule of_char_of)
    moreover have "(of_char (CHR '' '') :: nat) = 32" by simp
    ultimately have m: "(n + 32) mod 256 = 32" using eq by simp
    from True have "n + 32 < 256" by linarith
    then have "(n + 32) mod 256 = n + 32" by (rule mod_less)
    with m have "n = 0" by linarith
    with True show ?thesis by linarith
  qed
next
  assume "c = CHR '' ''"
  then show "lower_char c = CHR '' ''" by (simp add: lower_char_def)
qed

lemma split1_at_space:
  "CHR '' '' \<notin> set p \<Longrightarrow> py_split1 (p @ CHR '' '' # r) = [p, r]"
proof -
  assume a: "CHR '' '' \<notin> set p"
  then have all: "\<forall>x\<in>set p. x \<noteq> CHR '' ''" by blast
  have d: "dropWhile (\<lambda>c. c \<noteq> CHR '' '') (p @ CHR '' '' # r) = CHR '' '' # r"
    using all by (simp add: dropWhile_append2)
  have t: "takeWhile (\<lambda>c. c \<noteq> CHR '' '') (p @ CHR '' '' # r) = p"
    using all by (simp add: takeWhile_append2)
  show ?thesis
    unfolding py_split1_def d t by simp
qed

lemma less_6_cases: "(i::nat) < 6 \<longleftrightarrow> i = 0 \<or> i = 1 \<or> i = 2 \<or> i = 3 \<or> i = 4 \<or> i = 5"
  by arith

lemma bearer_letters: "i < 6 \<Longrightarrow> ''bearer '' ! i \<noteq> CHR '' ''"
  unfolding less_6_cases by (elim disjE) simp_all

lemma split_bearer:
  assumes "prefix ''bearer '' (py_lower h)"
  shows "py_split1 h = [take 6 h, drop 7 h] \<and> h = take 6 h @ '' '' @ drop 7 h
         \<and> CHR '' '' \<notin> set (take 6 h)"
proof -
  from assms obtain r where m: "map lower_char h = ''bearer '' @ r"
    unfolding py_lower_def prefix_def by blast
  then have "length (map lower_char h) = length (''bearer '' @ r)" by (rule arg_cong)
  then have len: "7 \<le> length h" by simp
  have nth: "lower_char (h ! i) = ''bearer '' ! i" if "i < 7" for i
  proof -
    from that len have "i < length h" by linarith
    then have "lower_char (h ! i) = map lower_char h ! i" by simp
    also have "\<dots> = (''bearer '' @ r) ! i" by (simp only: m)
    also have "\<dots> = ''bearer '' ! i" using that by (subst nth_append) simp
    finally show ?thesis .
  qed
  have "lower_char (h ! 6) = CHR '' ''" using nth[of 6] by simp
  then have sp: "h ! 6 = CHR '' ''" by (simp only: lower_char_space)
  have ns: "h ! i \<noteq> CHR '' ''" if "i < 6" for i
  proof
    assume "h ! i = CHR '' ''"
    then have "lower_char (h ! i) = CHR '' ''" by (simp only: lower_char_space)
    moreover have "lower_char (h ! i) = ''bearer '' ! i" using that by (intro nth) linarith
    ultimately have "''bearer '' ! i = CHR '' ''" by (simp only:)
    with bearer_letters[OF that] show False by blast
  qed
  have nin: "CHR '' '' \<notin> set (take 6 h)"
  proof
    assume "CHR '' '' \<in> set (take 6 h)"
    then obtain i where i: "i < length (take 6 h)" "take 6 h ! i = CHR '' ''"
      by (auto simp only: in_set_conv_nth)
    from i(1) have i6: "i < 6" by simp
    with i(2) have "h ! i = CHR '' ''" by simp
    with ns[OF i6] show False by blast
  qed
  from len have "6 < length h" by linarith
  then have "h = take 6 h @ h ! 6 # drop (Suc 6) h" by (rule id_take_nth_drop)
  then have dec: "h = take 6 h @ CHR '' '' # drop 7 h" using sp by simp
  have "py_split1 (take 6 h @ CHR '' '' # drop 7 h) = [take 6 h, drop 7 h]"
    using nin by (rule split1_at_space)
  with dec have "py_split1 h = [take 6 h, drop 7 h]" by simp
  with dec nin show ?thesis by simp
qed

lemma bearer_token:
  assumes "headers_get (headers req) ''Authorization'' = Some h"
      and "prefix ''bearer '' (py_lower h)"
  shows "get_current_user_claims E req settings w =
           (if py_strip (drop 7 h) = []
            then (Inl (HTTPException 401 (''Token Bearer vac'' @ [CHR 0xED] @ ''o'')), w)
            else validate_jwt E (py_strip (drop 7 h)) settings w)"
proof -
  from assms(2) have ne: "h \<noteq> []" by (auto simp: py_lower_def)
  from split_bearer[OF assms(2)] have sp: "py_split1 h = [take 6 h, drop 7 h]" by blast
  show ?thesis
    using assms ne by (simp add: get_current_user_claims_def sp py_index_def Let_def)
qed

lemma no_bearer:
  assumes "headers_get (headers req) ''Authorization'' = None \<or>
           (headers_get (headers req) ''Authorization'' = Some h \<and> \<not> prefix ''bearer '' (py_lower h))"
  shows "get_current_user_claims E req settings w =
           (Inl (HTTPException 401 ''Falta encabezado Authorization con Bearer token''), w)"
  using assms unfolding get_current_user_claims_def by auto

lemma lower_char_B: "lower_char CHR ''B'' = CHR ''b''"
  by code_simp

lemma lower_char_bearer:
  "lower_char CHR ''e'' = CHR ''e''" "lower_char CHR ''a'' = CHR ''a''"
  "lower_char CHR ''r'' = CHR ''r''" "lower_char CHR '' '' = CHR '' ''"
  by (simp_all add: lower_char_def)

lemma literal_bearer: "prefix ''Bearer '' h \<Longrightarrow> prefix ''bearer '' (py_lower h)"
proof -
  assume "prefix ''Bearer '' h"
  then obtain r where "h = ''Bearer '' @ r" unfolding prefix_def by blast
  then have "py_lower h = ''bearer '' @ py_lower r"
    by (simp add: py_lower_def lower_char_B lower_char_bearer)
  then show ?thesis by (simp only: prefix_def) blast
qed

lemma bearer_request_header:
  "headers_get (headers bearer_request) ''Authorization'' = Some ''Bearer tok-k1''"
  unfolding bearer_request_def by code_simp

lemma shouting_request_header:
  "headers_get (headers shouting_request) ''Authorization'' = Some ''BEARER  tok-k1 ''"
  unfolding shouting_request_def by code_simp

lemma anonymous_request_header:
  "headers_get (headers anonymous_request) ''Authorization'' = None"
  unfolding anonymous_request_def by code_simp

lemma bearer_request_token:
  "prefix ''bearer '' (py_lower ''Bearer tok-k1'')" "py_strip (drop 7 ''Bearer tok-k1'') = ''tok-k1''"
  by code_simp+

lemma shouting_request_token:
  "prefix ''bearer '' (py_lower ''BEARER  tok-k1 '')"
  "py_strip (drop 7 ''BEARER  tok-k1 '') = ''tok-k1''"
  by code_simp+

text \<open>What \<open>str.strip\<close> leaves: the text between the leading and the trailing whitespace.\<close>

lemma py_strip_empty_iff: "py_strip s = [] \<longleftrightarrow> (\<forall>c\<in>set s. py_isspace c)"
proof
  assume e: "py_strip s = []"
  then have "dropWhile py_isspace (rev (dropWhile py_isspace s)) = []"
    by (simp add: py_strip_def)
  then have a: "\<forall>c\<in>set (dropWhile py_isspace s). py_isspace c"
    by (simp add: dropWhile_eq_Nil_conv)
  have "dropWhile py_isspace s = []"
  proof (rule ccontr)
    assume n: "dropWhile py_isspace s \<noteq> []"
    then have "\<not> py_isspace (hd (dropWhile py_isspace s))" by (rule hd_dropWhile)
    moreover from n have "hd (dropWhile py_isspace s) \<in> set (dropWhile py_isspace s)"
      by (rule hd_in_set)
    ultimately show False using a by blast
  qed
  then show "\<forall>c\<in>set s. py_isspace c" by (simp add: dropWhile_eq_Nil_conv)
next
  assume "\<forall>c\<in>set s. py_isspace c"
  then have "dropWhile py_isspace s = []" by (simp add: dropWhile_eq_Nil_conv)
  then show "py_strip s = []" unfolding py_strip_def by (simp only: rev.simps dropWhile.simps)
qed

lemma py_strip_dropWhile:
  "\<exists>post. dropWhile py_isspace s = py_strip s @ post \<and> (\<forall>c\<in>set post. py_isspace c)"
proof -
  define d where "d = dropWhile py_isspace s"
  define post where "post = rev (takeWhile py_isspace (rev d))"
  have "d = rev (rev d)" by simp
  also have "\<dots> = rev (takeWhile py_isspace (rev d) @ dropWhile py_isspace (rev d))"
    by (simp only: takeWhile_dropWhile_id)
  also have "\<dots> = rev (dropWhile py_isspace (rev d)) @ rev (takeWhile py_isspace (rev d))"
    by (simp only: rev_append)
  finally have d: "d = py_strip s @ post"
    unfolding py_strip_def post_def d_def .
  have "\<forall>c\<in>set post. py_isspace c"
    unfolding post_def by (auto dest: set_takeWhileD)
  with d show ?thesis unfolding d_def by blast
qed

lemma py_strip_decomp:
  "\<exists>pre post. s = pre @ py_strip s @ post \<and> (\<forall>c\<in>set pre. py_isspace c)
       \<and> (\<forall>c\<in>set post. py_isspace c)"
proof -
  from py_strip_dropWhile[of s] obtain post where
    d: "dropWhile py_isspace s = py_strip s @ post" and p2: "\<forall>c\<in>set post. py_isspace c"
    by blast
  have "s = takeWhile py_isspace s @ dropWhile py_isspace s" by simp
  with d have s: "s = takeWhile py_isspace s @ py_strip s @ post" by simp
  have p1: "\<forall>c\<in>set (takeWhile py_isspace s). py_isspace c"
    by (auto dest: set_takeWhileD)
  from s p1 p2 show ?thesis by blast
qed

lemma py_strip_trimmed:
  assumes "\<forall>c\<in>set pre. py_isspace c" and "\<forall>c\<in>set post. py_isspace c"
      and "t \<noteq> []" and "\<not> py_isspace (hd t)" and "\<not> py_isspace (last t)"
  shows "py_strip (pre @ t @ post) = t"
proof -
  from assms(3) obtain x xs where t: "t = x # xs" by (cases t) auto
  with assms(4) have x: "\<not> py_isspace x" by simp
  have "dropWhile py_isspace (pre @ (t @ post)) = dropWhile py_isspace (t @ post)"
    by (rule dropWhile_append2) (use assms(1) in blast)
  then have 1: "dropWhile py_isspace (pre @ t @ post) = t @ post"
    using x unfolding t by simp
  from assms(3) obtain ys y where t': "t = ys @ [y]" by (cases t rule: rev_cases) auto
  with assms(5) have y: "\<not> py_isspace y" by simp
  have r: "rev (t @ post) = rev post @ (y # rev ys)" unfolding t' by simp
  have "dropWhile py_isspace (rev post @ (y # rev ys)) = dropWhile py_isspace (y # rev ys)"
    by (rule dropWhile_append2) (use assms(2) in simp)
  then have 2: "dropWhile py_isspace (rev (t @ post)) = y # rev ys"
    unfolding r using y by simp
  have "py_strip (pre @ t @ post) =
          rev (dropWhile py_isspace (rev (dropWhile py_isspace (pre @ t @ post))))"
    by (simp only: py_strip_def)
  also have "\<dots> = rev (dropWhile py_isspace (rev (t @ post)))" by (simp only: 1)
  also have "\<dots> = rev (y # rev ys)" by (simp only: 2)
  also have "\<dots> = t" by (simp add: t')
  finally show ?thesis .
qed

lemma py_strip_ends:
  assumes "py_strip s \<noteq> []"
  shows "\<not> py_isspace (hd (py_strip s)) \<and> \<not> py_isspace (last (py_strip s))"
proof -
  define e where "e = dropWhile py_isspace (rev (dropWhile py_isspace s))"
  have ps: "py_strip s = rev e" by (simp add: py_strip_def e_def)
  with assms have ne: "e \<noteq> []" by simp
  then have "\<not> py_isspace (hd e)" unfolding e_def by (rule hd_dropWhile)
  moreover have "last (rev e) = hd e" using ne by (simp add: last_rev)
  ultimately have l: "\<not> py_isspace (last (py_strip s))" by (simp add: ps)
  from py_strip_dropWhile[of s] obtain post where
    d: "dropWhile py_isspace s = py_strip s @ post" by blast
  with assms have dn: "dropWhile py_isspace s \<noteq> []" by simp
  then have "\<not> py_isspace (hd (dropWhile py_isspace s))" by (rule hd_dropWhile)
  moreover have "hd (dropWhile py_isspace s) = hd (py_strip s)"
    unfolding d using assms by simp
  ultimately have h: "\<not> py_isspace (hd (py_strip s))" by simp
  from h l show ?thesis by blast
qed

lemma blank_request_header:
  "headers_get (headers blank_request) ''Authorization'' = Some (''Bearer   '' @ [CHR 0x09] @ '' '')"
  unfolding blank_request_def by code_simp

lemma padded_request_header:
  "headers_get (headers padded_request) ''Authorization''
     = Some (''Bearer   tok-k1'' @ [CHR 0x09] @ '' '')"
  unfolding padded_request_def by code_simp

lemma blank_request_token:
  "prefix ''bearer '' (py_lower (''Bearer   '' @ [CHR 0x09] @ '' ''))"
  "\<forall>c\<in>set (drop 7 (''Bearer   '' @ [CHR 0x09] @ '' '')). py_isspace c"
  by code_simp+

lemma padded_request_token:
  "prefix ''bearer '' (py_lower (''Bearer   tok-k1'' @ [CHR 0x09] @ '' ''))"
  "\<not> (\<forall>c\<in>set (drop 7 (''Bearer   tok-k1'' @ [CHR 0x09] @ '' '')). py_isspace c)"
  "py_strip (drop 7 (''Bearer   tok-k1'' @ [CHR 0x09] @ '' '')) = ''tok-k1''"
  by code_simp+

text \<open>
  C5. The endpoint, header by header. Without an \<open>Authorization\<close> header, or with one
  whose scheme is not \<open>Bearer\<close> followed by a space (the scheme is compared without regard
  to letter case), and with a remainder that is whitespace only, the request fails with
  status 401 and the state is untouched: no key is fetched and no verification is
  attempted. Otherwise the remainder is whitespace, a token that neither begins nor ends
  with whitespace, and whitespace; \<open>validate_jwt\<close> runs on that token; its failure is the
  failure of the request, unchanged, and its claims are projected and returned. A header
  that starts with the literal \<open>Bearer\<close> and a space is of the accepted form.
\<close>

theorem read_current_user_flow:
  "(headers_get (headers req) ''Authorization'' = None \<or>
    (headers_get (headers req) ''Authorization'' = Some h \<and> \<not> prefix ''bearer '' (py_lower h))
      \<longrightarrow> read_current_user E req settings w =
            (Inl (HTTPException 401 ''Falta encabezado Authorization con Bearer token''), w))
   \<and> (headers_get (headers req) ''Authorization'' = Some h \<and> prefix ''bearer '' (py_lower h) \<and>
      (\<forall>c\<in>set (drop 7 h). py_isspace c)
      \<longrightarrow> read_current_user E req settings w =
            (Inl (HTTPException 401 (''Token Bearer vac'' @ [CHR 0xED] @ ''o'')), w))
   \<and> (headers_get (headers req) ''Authorization'' = Some h \<and> prefix ''bearer '' (py_lower h) \<and>
      \<not> (\<forall>c\<in>set (drop 7 h). py_isspace c)
      \<longrightarrow> (\<exists>pre token post.
             drop 7 h = pre @ token @ post \<and>
             (\<forall>c\<in>set pre. py_isspace c) \<and> (\<forall>c\<in>set post. py_isspace c) \<and>
             token \<noteq> [] \<and> \<not> py_isspace (hd token) \<and> \<not> py_isspace (last token) \<and>
             (\<forall>e w'. validate_jwt E token settings w = (Inl e, w')
                   \<longrightarrow> read_current_user E req settings w = (Inl e, w')) \<and>
             (\<forall>claims w'. validate_jwt E token settings w = (Inr claims, w')
                   \<longrightarrow> (\<exists>u. build_user_info_from_claims E claims = Inr u \<and>
                            read_current_user E req settings w = (Inr (user_response u), w')))))
   \<and> (prefix ''Bearer '' h \<longrightarrow> prefix ''bearer '' (py_lower h))"
proof (intro conjI impI)
  assume "headers_get (headers req) ''Authorization'' = None \<or>
    (headers_get (headers req) ''Authorization'' = Some h \<and> \<not> prefix ''bearer '' (py_lower h))"
  from no_bearer[OF this] show "read_current_user E req settings w =
            (Inl (HTTPException 401 ''Falta encabezado Authorization con Bearer token''), w)"
    by (simp add: read_current_user_def)
next
  assume a: "headers_get (headers req) ''Authorization'' = Some h \<and> prefix ''bearer '' (py_lower h) \<and>
      (\<forall>c\<in>set (drop 7 h). py_isspace c)"
  then have "py_strip (drop 7 h) = []" by (simp add: py_strip_empty_iff)
  with a have "get_current_user_claims E req settings w =
      (Inl (HTTPException 401 (''Token Bearer vac'' @ [CHR 0xED] @ ''o'')), w)"
    using bearer_token[of req h E settings w] by simp
  then show "read_current_user E req settings w =
            (Inl (HTTPException 401 (''Token Bearer vac'' @ [CHR 0xED] @ ''o'')), w)"
    by (simp add: read_current_user_def)
next
  assume a: "headers_get (headers req) ''Authorization'' = Some h \<and> prefix ''bearer '' (py_lower h) \<and>
      \<not> (\<forall>c\<in>set (drop 7 h). py_isspace c)"
  define token where "token = py_strip (drop 7 h)"
  from a have ne: "token \<noteq> []" unfolding token_def by (simp add: py_strip_empty_iff)
  from py_strip_decomp[of "drop 7 h"] obtain pre post where
    dec: "drop 7 h = pre @ token @ post" and
    pre: "\<forall>c\<in>set pre. py_isspace c" and post: "\<forall>c\<in>set post. py_isspace c"
    unfolding token_def by blast
  from ne have ends: "\<not> py_isspace (hd token)" "\<not> py_isspace (last token)"
    unfolding token_def using py_strip_ends by blast+
  from a ne have g: "get_current_user_claims E req settings w = validate_jwt E token settings w"
    unfolding token_def using bearer_token[of req h E settings w] by simp
  have fl: "\<forall>e w'. validate_jwt E token settings w = (Inl e, w')
                   \<longrightarrow> read_current_user E req settings w = (Inl e, w')"
    using g by (simp add: read_current_user_def)
  have ok: "\<forall>claims w'. validate_jwt E token settings w = (Inr claims, w')
                   \<longrightarrow> (\<exists>u. build_user_info_from_claims E claims = Inr u \<and>
                            read_current_user E req settings w = (Inr (user_response u), w'))"
  proof (intro allI impI)
    fix claims w'
    assume v: "validate_jwt E token settings w = (Inr claims, w')"
    from build_user_info_total[of E claims] obtain u where
      u: "build_user_info_from_claims E claims = Inr u" by blast
    with g v have "read_current_user E req settings w = (Inr (user_response u), w')"
      by (simp add: read_current_user_def)
    with u show "\<exists>u. build_user_info_from_claims E claims = Inr u \<and>
                  read_current_user E req settings w = (Inr (user_response u), w')"
      by blast
  qed
  from dec pre post ne ends fl ok
  show "\<exists>pre token post.
             drop 7 h = pre @ token @ post \<and>
             (\<forall>c\<in>set pre. py_isspace c) \<and> (\<forall>c\<in>set post. py_isspace c) \<and>
             token \<noteq> [] \<and> \<not> py_isspace (hd token) \<and> \<not> py_isspace (last token) \<and>
             (\<forall>e w'. validate_jwt E token settings w = (Inl e, w')
                   \<longrightarrow> read_current_user E req settings w = (Inl e, w')) \<and>
             (\<forall>claims w'. validate_jwt E token settings w = (Inr claims, w')
                   \<longrightarrow> (\<exists>u. build_user_info_from_claims E claims = Inr u \<and>
                            read_current_user E req settings w = (Inr (user_response u), w')))"
    by blast
next
  assume "prefix ''Bearer '' h"
  then show "prefix ''bearer '' (py_lower h)" by (rule literal_bearer)
qed

theorem read_current_user_flow_witness:
  "read_current_user frozen_env anonymous_request demo_settings warm_world =
     (Inl (HTTPException 401 ''Falta encabezado Authorization con Bearer token''), warm_world)
   \<and> read_current_user frozen_env blank_request demo_settings warm_world =
     (Inl (HTTPException 401 (''Token Bearer vac'' @ [CHR 0xED] @ ''o'')), warm_world)
   \<and> fst (read_current_user frozen_env padded_request demo_settings warm_world) =
       Inr (JObj [(''user'',
              JObj [(''id'', JStr ''u1''), (''name'', JNull), (''email'', JStr ''a@b.com''),
                    (''groups'', JList [JStr ''g1'', JStr ''g2''])])])"
proof -
  note t1 = read_current_user_flow[of anonymous_request "[]" frozen_env demo_settings warm_world]
  from t1 anonymous_request_header have a:
    "read_current_user frozen_env anonymous_request demo_settings warm_world =
     (Inl (HTTPException 401 ''Falta encabezado Authorization con Bearer token''), warm_world)"
    by blast
  note t2 = read_current_user_flow[of blank_request "''Bearer   '' @ [CHR 0x09] @ '' ''"
              frozen_env demo_settings warm_world]
  from t2 blank_request_header blank_request_token have b:
    "read_current_user frozen_env blank_request demo_settings warm_world =
     (Inl (HTTPException 401 (''Token Bearer vac'' @ [CHR 0xED] @ ''o'')), warm_world)"
    by blast
  note t3 = read_current_user_flow[of padded_request "''Bearer   tok-k1'' @ [CHR 0x09] @ '' ''"
              frozen_env demo_settings warm_world]
  from t3 padded_request_header padded_request_token(1,2)
  obtain pre token post where
    dec: "drop 7 (''Bearer   tok-k1'' @ [CHR 0x09] @ '' '') = pre @ token @ post" and
    sp: "\<forall>c\<in>set pre. py_isspace c" "\<forall>c\<in>set post. py_isspace c" and
    tk: "token \<noteq> []" "\<not> py_isspace (hd token)" "\<not> py_isspace (last token)" and
    ok: "\<forall>claims w'. validate_jwt frozen_env token demo_settings warm_world = (Inr claims, w')
          \<longrightarrow> (\<exists>u. build_user_info_from_claims frozen_env claims = Inr u \<and>
                   read_current_user frozen_env padded_request demo_settings warm_world
                     = (Inr (user_response u), w'))"
    by blast
  have "token = py_strip (pre @ token @ post)"
    by (rule py_strip_trimmed[OF sp tk, symmetric])
  also have "\<dots> = py_strip (drop 7 (''Bearer   tok-k1'' @ [CHR 0x09] @ '' ''))"
    by (simp only: dec)
  also have "\<dots> = ''tok-k1''" by (rule padded_request_token(3))
  finally have "token = ''tok-k1''" .
  with ok demo_validate_k1 obtain u where
    u: "build_user_info_from_claims frozen_env demo_claims = Inr u" and
    r: "fst (read_current_user frozen_env padded_request demo_settings warm_world)
          = Inr (user_response u)"
    by fastforce
  have "build_user_info_from_claims frozen_env demo_claims =
          Inr \<lparr>info_id = JStr ''u1'', info_name = JNull, info_email = JStr ''a@b.com'',
               info_groups = [''g1'', ''g2''], raw_claims = demo_claims\<rparr>"
    by (simp add: build_user_info_from_claims_def extract_email_from_claims_def
          extract_groups_from_claims_def dict_get_def py_str_def demo_claims_def)
  with u have "user_response u =
       JObj [(''user'',
              JObj [(''id'', JStr ''u1''), (''name'', JNull), (''email'', JStr ''a@b.com''),
                    (''groups'', JList [JStr ''g1'', JStr ''g2''])])]"
    by (auto simp: user_response_def)
  with r a b show ?thesis by simp
qed

text \<open>
  C10. A header whose lower-cased form starts with \<open>bearer\<close> and a space, and whose
  remainder is not empty after trimming, passes the check whatever the case of its
  letters: the validator receives the trimmed text after the first space of the header
  (the scheme has no space, so that is the text after position 6).
\<close>

theorem bearer_prefix_case_insensitive:
  assumes "headers_get (headers req) ''Authorization'' = Some h"
      and "prefix ''bearer '' (py_lower h)"
      and "py_strip (drop 7 h) \<noteq> []"
  shows "get_current_user_claims E req settings w =
           validate_jwt E (py_strip (drop 7 h)) settings w
         \<and> h = take 6 h @ '' '' @ drop 7 h \<and> CHR '' '' \<notin> set (take 6 h)"
  using bearer_token[OF assms(1,2), of E settings w] assms(3) split_bearer[OF assms(2)]
  by simp

theorem bearer_prefix_case_insensitive_witness:
  "get_current_user_claims frozen_env shouting_request demo_settings warm_world =
     validate_jwt frozen_env ''tok-k1'' demo_settings warm_world
   \<and> fst (get_current_user_claims frozen_env shouting_request demo_settings warm_world) =
       Inr demo_claims"
proof -
  have ne: "py_strip (drop 7 ''BEARER  tok-k1 '') \<noteq> []"
    by (simp only: shouting_request_token) simp
  from bearer_prefix_case_insensitive[OF shouting_request_header shouting_request_token(1) ne,
         of frozen_env demo_settings warm_world]
  have "get_current_user_claims frozen_env shouting_request demo_settings warm_world =
          validate_jwt frozen_env ''tok-k1'' demo_settings warm_world"
    unfolding shouting_request_token by blast
  then show ?thesis by (simp add: demo_validate_k1)
qed

section \<open>Callers that overlap\<close>












end
